theory Spec2Isabelle
  imports Main
begin

section \<open>JavaScript strings\<close>

text \<open>
  A JavaScript string is a sequence of 16-bit code units. A code unit is modelled as a
  natural number (nothing below depends on the bound 65536), and \<open>units\<close> writes an ASCII
  literal as the string of its code units.
\<close>

type_synonym jstring = "nat list"

definition units :: "string \<Rightarrow> jstring" where
  "units s = map of_char s"

definition is_ascii :: "jstring \<Rightarrow> bool" where
  "is_ascii s \<longleftrightarrow> list_all (\<lambda>c. c < 128) s"

section \<open>Data model (types.ts)\<close>

text \<open>
  Source: \<^verbatim>\<open>src/unnamed/part_002\<close>.
  \<^verbatim>\<open>export interface Villain { name: string; explanation: string; }\<close>
\<close>

record Villain =
  name :: jstring
  explanation :: jstring

section \<open>The runtime operations the matcher calls\<close>

subsection \<open>Case mapping\<close>

text \<open>
  \<^verbatim>\<open>String.prototype.toLowerCase\<close>, and the canonical form that a regular expression with
  the \<^verbatim>\<open>i\<close> flag (and no \<^verbatim>\<open>u\<close> flag) compares characters by: the upper-case form of the
  code unit. On ASCII both are what the language definition says: the letters
  \<^verbatim>\<open>A\<close> to \<^verbatim>\<open>Z\<close> and \<^verbatim>\<open>a\<close> to \<^verbatim>\<open>z\<close> are mapped onto each other and every other ASCII
  code unit is left alone. What the runtime does beyond ASCII follows the Unicode tables;
  it is not written out here but taken as a parameter, about which nothing is assumed:
  \<open>lowerCase_beyond_ascii\<close> gives the lower-case form of a string that is not all ASCII
  (as its first code unit and the rest: the lower-case form of a non-empty string is not
  empty), \<open>canonical_beyond_ascii\<close> the canonical form of a code unit from 128 on.
\<close>

record Runtime =
  lowerCase_beyond_ascii :: "jstring \<Rightarrow> nat \<times> jstring"
  canonical_beyond_ascii :: "nat \<Rightarrow> nat"

definition ascii_lower :: "nat \<Rightarrow> nat" where
  "ascii_lower c = (if 65 \<le> c \<and> c \<le> 90 then c + 32 else c)"

definition ascii_upper :: "nat \<Rightarrow> nat" where
  "ascii_upper c = (if 97 \<le> c \<and> c \<le> 122 then c - 32 else c)"

definition toLowerCase :: "Runtime \<Rightarrow> jstring \<Rightarrow> jstring" where
  "toLowerCase rt s =
     (if is_ascii s then map ascii_lower s
      else (case lowerCase_beyond_ascii rt s of (c, cs) \<Rightarrow> c # cs))"

definition canonicalize :: "Runtime \<Rightarrow> nat \<Rightarrow> nat" where
  "canonicalize rt c = (if c < 128 then ascii_upper c else canonical_beyond_ascii rt c)"

text \<open>
  One runtime, for the concrete inputs below. It does with U+212A (KELVIN SIGN, 8490)
  what ECMAScript does: \<^verbatim>\<open>toLowerCase\<close> turns it into \<^verbatim>\<open>k\<close> (107), and its canonical form
  under the \<^verbatim>\<open>i\<close> flag is itself, so that \<^verbatim>\<open>/k/i\<close> does not match it. Other code units
  beyond ASCII do not occur in the inputs it is used on.
\<close>

definition kelvin :: Runtime where
  "kelvin =
     \<lparr>lowerCase_beyond_ascii =
        (\<lambda>s. case map (\<lambda>c. if c = 8490 then 107 else ascii_lower c) s of
               [] \<Rightarrow> (0, [])
             | c # cs \<Rightarrow> (c, cs)),
      canonical_beyond_ascii = (\<lambda>c. c)\<rparr>"

subsection \<open>The compiled pattern\<close>

text \<open>
  \<^verbatim>\<open>new RegExp(`(${sortedVillains.map(v => escapeRegExp(v.name)).join('|')})`, 'gi')\<close>
  Every name is escaped, so the pattern is one capturing group holding an ordered
  alternation of literals. A match attempt anchored at the start of \<open>s\<close> takes the first
  alternative, in the order of the list, that is a prefix of \<open>s\<close> up to the canonical
  form of each code unit; the result is the length of the match.
\<close>

definition literal_matches :: "Runtime \<Rightarrow> jstring \<Rightarrow> jstring \<Rightarrow> bool" where
  "literal_matches rt lit s \<longleftrightarrow>
     length lit \<le> length s \<and>
     map (canonicalize rt) lit = map (canonicalize rt) (take (length lit) s)"

fun regExpExec :: "Runtime \<Rightarrow> jstring list \<Rightarrow> jstring \<Rightarrow> nat option" where
  "regExpExec rt [] s = None"
| "regExpExec rt (lit # lits) s =
     (if literal_matches rt lit s then Some (length lit) else regExpExec rt lits s)"

subsection \<open>String.prototype.split with a pattern that has one capturing group\<close>

text \<open>
  The loop of \<^verbatim>\<open>RegExp.prototype[Symbol.split]\<close>: \<open>p\<close> is the end of the last match, \<open>q\<close>
  the position tried next. A failed attempt and an empty match at \<open>p\<close> both advance \<open>q\<close>
  by one; any other match at \<open>q\<close>, ending at \<open>e\<close>, emits the text from \<open>p\<close> to \<open>q\<close>
  and then the captured text, and the scan goes on from \<open>e\<close>. The text after the last
  match is emitted at the end.
\<close>

function split_loop :: "Runtime \<Rightarrow> jstring list \<Rightarrow> jstring \<Rightarrow> nat \<Rightarrow> nat \<Rightarrow> jstring list" where
  "split_loop rt lits S p q =
     (if q < length S then
        (case regExpExec rt lits (drop q S) of
           None \<Rightarrow> split_loop rt lits S p (q + 1)
         | Some n \<Rightarrow>
             (let e = min (q + n) (length S) in
              if e = p then split_loop rt lits S p (q + 1)
              else take (q - p) (drop p S) # take (e - q) (drop q S) # split_loop rt lits S e e))
      else [drop p S])"
  by pat_completeness auto
termination
  by (relation "measures [\<lambda>(rt, lits, S, p, q). length S - q,
                          \<lambda>(rt, lits, S, p, q). if p = q then 0 else 1]")
     (auto split: if_splits)

text \<open>
  An empty subject is a special case of the algorithm: no part when the pattern matches
  the empty string, the subject itself as the only part otherwise.
\<close>

definition split :: "Runtime \<Rightarrow> jstring list \<Rightarrow> jstring \<Rightarrow> jstring list" where
  "split rt lits S =
     (if S = [] then (if regExpExec rt lits S \<noteq> None then [] else [S])
      else split_loop rt lits S 0 0)"

section \<open>The term matcher (TextWithVillains, LiveTextWithVillains)\<close>

text \<open>
  Source: \<^verbatim>\<open>src/unnamed/part_002\<close> and \<^verbatim>\<open>src/components/InsightCard.tsx\<close>.
  A rendered part is either the plain text or a highlighted element that carries the
  text and the villain found for it.
\<close>

datatype Span = Plain jstring | Match jstring Villain

fun span_text :: "Span \<Rightarrow> jstring" where
  "span_text (Plain t) = t"
| "span_text (Match t v) = t"


text \<open>
  \<^verbatim>\<open>[...villains].sort((a, b) => b.name.length - a.name.length)\<close>
  \<^verbatim>\<open>Array.prototype.sort\<close> is stable, and so is \<^const>\<open>sort_key\<close>.
\<close>

definition sortedVillains :: "Villain list \<Rightarrow> Villain list" where
  "sortedVillains villains = sort_key (\<lambda>v. - int (length (name v))) villains"

text \<open>
  \<^verbatim>\<open>sortedVillains.find(v => v.name.toLowerCase() === part.toLowerCase())\<close>
\<close>

definition render_part :: "Runtime \<Rightarrow> Villain list \<Rightarrow> jstring \<Rightarrow> Span" where
  "render_part rt sortedVs part =
     (case find (\<lambda>v. toLowerCase rt (name v) = toLowerCase rt part) sortedVs of
        Some matchedVillain \<Rightarrow> Match part matchedVillain
      | None \<Rightarrow> Plain part)"

definition TextWithVillains :: "Runtime \<Rightarrow> jstring \<Rightarrow> Villain list \<Rightarrow> Span list" where
  "TextWithVillains rt text villains =
     (if length villains = 0 then [Plain text]
      else
        (let sortedVs = sortedVillains villains;
             parts = split rt (map name sortedVs) text
         in map (render_part rt sortedVs) parts))"





section \<open>The analysis invoker (services/geminiService.ts)\<close>

text \<open>
  Source: \<^verbatim>\<open>src/unnamed/part_000\<close>.
  \<^verbatim>\<open>return JSON.parse(text) as AnalysisResult;\<close>
  The cast checks nothing at run time, so the value handed on is whatever JSON value the
  payload parses to.
\<close>

datatype json =
    JNull
  | JBool bool
  | JNumber int
  | JString jstring
  | JArray "json list"
  | JObject "(jstring \<times> json) list"

type_synonym AnalysisResult = json


text \<open>The \<^verbatim>\<open>required\<close> list of \<^verbatim>\<open>analysisSchema\<close>.\<close>

definition analysisSchema_required :: "jstring list" where
  "analysisSchema_required =
     [(units ''summary''), (units ''audioScript''), (units ''shareContent''), (units ''healthScore''), (units ''insights''),
      (units ''radarData''), (units ''dietaryClassification''), (units ''tradeoffs''), (units ''uncertainty''), (units ''villains'')]"

fun satisfies_required :: "json \<Rightarrow> bool" where
  "satisfies_required (JObject members) =
     list_all (\<lambda>k. k \<in> set (map fst members)) analysisSchema_required"
| "satisfies_required _ = False"














text \<open>
  \<^verbatim>\<open>String.prototype.includes\<close>, and \<^verbatim>\<open>String.prototype.trim\<close>, which strips the white
  space and the line terminators of the language: TAB, LF, VT, FF, CR, SP, NBSP, U+1680,
  U+2000 to U+200A, U+2028, U+2029, U+202F, U+205F, U+3000 and U+FEFF.
\<close>

fun includes_str :: "jstring \<Rightarrow> jstring \<Rightarrow> bool" where
  "includes_str [] sub = (sub = [])"
| "includes_str (c # cs) sub = (take (length sub) (c # cs) = sub \<or> includes_str cs sub)"

definition is_space :: "nat \<Rightarrow> bool" where
  "is_space c \<longleftrightarrow>
     c \<in> {0x9, 0xA, 0xB, 0xC, 0xD, 0x20, 0xA0, 0x1680, 0x2028, 0x2029, 0x202F, 0x205F,
          0x3000, 0xFEFF} \<or>
     (0x2000 \<le> c \<and> c \<le> 0x200A)"

definition trim :: "jstring \<Rightarrow> jstring" where
  "trim s = rev (dropWhile is_space (rev (dropWhile is_space s)))"

text \<open>
  A thrown value is an \<^verbatim>\<open>Error\<close>, modelled by its message.
  \<^verbatim>\<open>
  function handleGeminiError(error: any): never {
    const msg = typeof error === 'string' ? error : (error?.message || JSON.stringify(error));
    if (msg.includes('429') || msg.includes('quota') || msg.includes('RESOURCE_EXHAUSTED')) {
      throw new Error("QUOTA_EXCEEDED");
    }
    throw error;
  }
  \<close>
  \<^verbatim>\<open>JSON.stringify\<close> of an \<^verbatim>\<open>Error\<close> with an empty message is \<^verbatim>\<open>{}\<close>.
\<close>

definition handleGeminiError :: "jstring \<Rightarrow> jstring" where
  "handleGeminiError message =
     (let msg = (if message = [] then (units ''{}'') else message) in
      if includes_str msg (units ''429'') \<or> includes_str msg (units ''quota'') \<or> includes_str msg (units ''RESOURCE_EXHAUSTED'')
      then (units ''QUOTA_EXCEEDED'') else message)"

text \<open>
  One round trip to the collaborator: \<^verbatim>\<open>generateContent\<close> throws, or answers with
  \<^verbatim>\<open>response.text\<close> (possibly undefined) together with what \<^verbatim>\<open>JSON.parse\<close> makes of
  that text: a \<^verbatim>\<open>SyntaxError\<close> message or the parsed value.
\<close>

datatype reply =
    Throws jstring
  | Response "jstring option" "jstring + json"

text \<open>
  \<^verbatim>\<open>(apiKey || process.env.API_KEY || "").trim()\<close>; an absent and an empty string are
  both falsy.
\<close>

definition truthy :: "jstring option \<Rightarrow> bool" where
  "truthy x \<longleftrightarrow> x \<noteq> None \<and> x \<noteq> Some []"

definition finalApiKey :: "jstring option \<Rightarrow> jstring option \<Rightarrow> jstring" where
  "finalApiKey apiKey envKey =
     trim (if truthy apiKey then the apiKey else if truthy envKey then the envKey else [])"

text \<open>
  \<^verbatim>\<open>
  export async function analyzeImage(base64Data, mimeType, apiKey?, persona?) {
    const finalApiKey = (apiKey || process.env.API_KEY || "").trim();
    if (!finalApiKey) throw new Error("API Key is missing. Please provide one in settings.");
    ...
    try {
      const response = await ai.models.generateContent({...});
      const text = response.text;
      if (!text) throw new Error("No response text from Gemini");
      return JSON.parse(text) as AnalysisResult;
    } catch (error) { handleGeminiError(error); }
  }
  \<close>
  The arguments that only shape the request (the frame, the mime type, the persona, the
  query) are kept as arguments; \<open>envKey\<close> is \<^verbatim>\<open>process.env.API_KEY\<close> and \<open>r\<close> the reply of
  the round trip. The result is \<open>Inl\<close> the message of the error thrown, or \<open>Inr\<close> the value
  returned. \<^verbatim>\<open>analyzeText\<close> has the same body.
\<close>

definition analyzeImage ::
  "jstring \<Rightarrow> jstring \<Rightarrow> jstring option \<Rightarrow> jstring option \<Rightarrow> jstring option \<Rightarrow> reply
     \<Rightarrow> jstring + AnalysisResult" where
  "analyzeImage base64Data mimeType apiKey persona envKey r =
     (if finalApiKey apiKey envKey = []
      then Inl (units ''API Key is missing. Please provide one in settings.'')
      else
        (case r of
           Throws message \<Rightarrow> Inl (handleGeminiError message)
         | Response text parsed \<Rightarrow>
             if \<not> truthy text then Inl (handleGeminiError (units ''No response text from Gemini''))
             else (case parsed of
                     Inl message \<Rightarrow> Inl (handleGeminiError message)
                   | Inr v \<Rightarrow> Inr v)))"

definition analyzeText ::
  "jstring \<Rightarrow> jstring option \<Rightarrow> jstring option \<Rightarrow> jstring option \<Rightarrow> reply
     \<Rightarrow> jstring + AnalysisResult" where
  "analyzeText query apiKey persona envKey r =
     (if finalApiKey apiKey envKey = []
      then Inl (units ''API Key is missing. Please provide one in settings.'')
      else
        (case r of
           Throws message \<Rightarrow> Inl (handleGeminiError message)
         | Response text parsed \<Rightarrow>
             if \<not> truthy text then Inl (handleGeminiError (units ''No response text from Gemini''))
             else (case parsed of
                     Inl message \<Rightarrow> Inl (handleGeminiError message)
                   | Inr v \<Rightarrow> Inr v)))"

section \<open>The persona catalog (constants.ts)\<close>

text \<open>Source: \<^verbatim>\<open>src/unnamed/part_001\<close>.\<close>

record SubOption =
  sub_id :: jstring
  sub_label :: jstring
  prompt :: jstring

record Persona =
  persona_id :: jstring
  persona_label :: jstring
  basePrompt :: jstring
  subOptions :: "SubOption list"

text \<open>
  \<^verbatim>\<open>
  if (activePersonaId && activeSubOptionId) {
     const p = PERSONAS.find(x => x.id === activePersonaId);
     const s = p?.subOptions.find(x => x.id === activeSubOptionId);
     if (p && s) personaPrompt = `${p.basePrompt} SPECIFIC CONTEXT: ${s.prompt}`;
  }
  \<close>
  The catalog is a parameter.
\<close>

definition personaPrompt :: "Persona list \<Rightarrow> jstring option \<Rightarrow> jstring option \<Rightarrow> jstring option" where
  "personaPrompt PERSONAS activePersonaId activeSubOptionId =
     (if truthy activePersonaId \<and> truthy activeSubOptionId then
        (case find (\<lambda>x. Some (persona_id x) = activePersonaId) PERSONAS of
           None \<Rightarrow> None
         | Some p \<Rightarrow>
             (case find (\<lambda>x. Some (sub_id x) = activeSubOptionId) (subOptions p) of
                None \<Rightarrow> None
              | Some s \<Rightarrow> Some (basePrompt p @ (units '' SPECIFIC CONTEXT: '') @ prompt s)))
      else None)"

section \<open>The scan loop (LiveScanner)\<close>

text \<open>
  Source: \<^verbatim>\<open>src/components/InsightCard.tsx\<close>.
  The component's state: the \<^verbatim>\<open>useState\<close> cells and \<^verbatim>\<open>lastAnalysisTimeRef.current\<close>
  (initially 0). Times are milliseconds, as \<^verbatim>\<open>Date.now()\<close> gives them.
\<close>

record LiveScanner =
  isStreaming :: bool
  isAnalyzing :: bool
  isCoolingDown :: bool
  result :: "AnalysisResult option"
  error :: "jstring option"
  lastAnalysisTime :: int
  activePersonaId :: "jstring option"
  activeSubOptionId :: "jstring option"
  pendingPersonaId :: "jstring option"
  activeVillain :: "Villain option"
  isPlayingAudio :: bool

definition initial :: LiveScanner where
  "initial =
     \<lparr>isStreaming = False, isAnalyzing = False, isCoolingDown = False, result = None,
      error = None, lastAnalysisTime = 0, activePersonaId = None, activeSubOptionId = None,
      pendingPersonaId = None, activeVillain = None, isPlayingAudio = False\<rparr>"

text \<open>
  What a tick finds when it looks at the video element: whether both refs are set,
  whether \<^verbatim>\<open>readyState\<close> is \<^verbatim>\<open>HAVE_ENOUGH_DATA\<close>, whether the canvas gives a 2d context,
  and the frame it would capture.
\<close>

record Source =
  mounted :: bool
  ready :: bool
  context2d :: bool
  base64Data :: jstring

text \<open>An invocation in flight: the arguments \<^verbatim>\<open>analyzeImage\<close> was called with.\<close>

record Invocation =
  inv_frame :: jstring
  inv_persona :: "jstring option"

text \<open>
  \<^verbatim>\<open>if (!isStreaming || !apiKey || pendingPersonaId || activeVillain || isPlayingAudio) return;\<close>
  The interval exists only while this guard of the effect lets it be installed.
\<close>

definition scanning :: "jstring \<Rightarrow> LiveScanner \<Rightarrow> bool" where
  "scanning apiKey s \<longleftrightarrow>
     isStreaming s \<and> apiKey \<noteq> [] \<and> \<not> truthy (pendingPersonaId s) \<and>
     activeVillain s = None \<and> \<not> isPlayingAudio s"

text \<open>
  The interval callback up to its \<^verbatim>\<open>await\<close>. Every state cell the callback reads is a
  dependency of the effect, so the callback that runs sees the current state. The result
  is the state after the synchronous part and the invocation started, if any.
  \<^verbatim>\<open>
  const now = Date.now();
  if (isCoolingDown) {
      if (now > lastAnalysisTimeRef.current + 3000) { setIsCoolingDown(false); setError(null); }
      else return;
  }
  if (isAnalyzing || (now - lastAnalysisTimeRef.current < 3000)) return;
  if (videoRef.current && canvasRef.current) {
    if (video.readyState !== video.HAVE_ENOUGH_DATA) return;
    setIsAnalyzing(true);
    try { ... if (!ctx) return; ... await analyzeImage(...) ... } finally { setIsAnalyzing(false); }
  }
  \<close>
\<close>

definition tick ::
  "Persona list \<Rightarrow> jstring \<Rightarrow> Source \<Rightarrow> int \<Rightarrow> LiveScanner \<Rightarrow> LiveScanner \<times> Invocation option" where
  "tick PERSONAS apiKey src now s =
     (if \<not> scanning apiKey s then (s, None)
      else if isCoolingDown s \<and> \<not> now > lastAnalysisTime s + 3000 then (s, None)
      else
        (let s1 = (if isCoolingDown s then s\<lparr>isCoolingDown := False, error := None\<rparr> else s) in
         if isAnalyzing s \<or> now - lastAnalysisTime s < 3000 then (s1, None)
         else if mounted src then
           (if \<not> ready src then (s1, None)
            else if \<not> context2d src then (s1, None)
            else (s1\<lparr>isAnalyzing := True\<rparr>,
                  Some \<lparr>inv_frame = base64Data src,
                        inv_persona =
                          personaPrompt PERSONAS (activePersonaId s) (activeSubOptionId s)\<rparr>))
         else (s1, None)))"

text \<open>
  The rest of the callback, run when the promise settles at time \<open>now\<close> with the outcome of
  \<^verbatim>\<open>analyzeImage\<close>.
  \<^verbatim>\<open>
      setResult(data);
      lastAnalysisTimeRef.current = Date.now();
    } catch (err: any) {
      if (err.message === 'QUOTA_EXCEEDED') {
          setError("High traffic. Slowing down...");
          setIsCoolingDown(true);
          lastAnalysisTimeRef.current = Date.now() + 10000;
      }
    } finally { setIsAnalyzing(false); }
  \<close>
\<close>

text \<open>
  The result cell holds an analysis result or \<^verbatim>\<open>null\<close>; the empty cell is \<open>None\<close>. A
  payload that parses to \<^verbatim>\<open>null\<close> leaves the cell empty.
\<close>

definition setResult :: "AnalysisResult \<Rightarrow> AnalysisResult option" where
  "setResult data = (case data of JNull \<Rightarrow> None | _ \<Rightarrow> Some data)"

definition settle :: "int \<Rightarrow> jstring + AnalysisResult \<Rightarrow> LiveScanner \<Rightarrow> LiveScanner" where
  "settle now outcome s =
     (case outcome of
        Inr data \<Rightarrow> s\<lparr>result := setResult data, lastAnalysisTime := now\<rparr>
      | Inl message \<Rightarrow>
          if message = (units ''QUOTA_EXCEEDED'')
          then s\<lparr>error := Some (units ''High traffic. Slowing down...''), isCoolingDown := True,
                 lastAnalysisTime := now + 10000\<rparr>
          else s)
     \<lparr>isAnalyzing := False\<rparr>"

text \<open>The two persona handlers.\<close>

definition handlePersonaClick :: "jstring \<Rightarrow> LiveScanner \<Rightarrow> LiveScanner" where
  "handlePersonaClick personaId s =
     (if activePersonaId s = Some personaId
      then s\<lparr>activePersonaId := None, activeSubOptionId := None, result := None\<rparr>
      else s\<lparr>pendingPersonaId := Some personaId\<rparr>)"

definition confirmSubOption :: "jstring \<Rightarrow> LiveScanner \<Rightarrow> LiveScanner" where
  "confirmSubOption subId s =
     (if truthy (pendingPersonaId s)
      then s\<lparr>activePersonaId := pendingPersonaId s, activeSubOptionId := Some subId,
             pendingPersonaId := None, result := None\<rparr>
      else s)"

text \<open>
  The component as a transition system: its state, the invocations that have been
  started and have not settled yet, and whether the component has been unmounted.
  \<open>Settle k\<close> settles the \<open>k\<close>-th of the pending invocations. \<open>Close\<close> is the close button:
  \<^verbatim>\<open>onClose={() => setState(AppState.IDLE)}\<close> in \<^verbatim>\<open>App\<close> unmounts the scanner. The cleanup
  of the effect clears the interval, no handler can run any more, and a state update
  that a settling invocation makes on the unmounted component has no effect; nothing is
  displayed.
\<close>

datatype event =
    CameraStarted
  | Tick Source int
  | Settle nat int "jstring + AnalysisResult"
  | PersonaClick jstring
  | ConfirmSubOption jstring
  | ClosePending
  | VillainClick Villain
  | VillainTimeout
  | AudioToggle
  | Close

record System =
  scanner :: LiveScanner
  inFlight :: "Invocation list"
  unmounted :: bool

definition start :: System where
  "start = \<lparr>scanner = initial, inFlight = [], unmounted = False\<rparr>"

fun handle :: "Persona list \<Rightarrow> jstring \<Rightarrow> System \<Rightarrow> event \<Rightarrow> System" where
  "handle PERSONAS apiKey sys CameraStarted =
     sys\<lparr>scanner := (scanner sys)\<lparr>isStreaming := True\<rparr>\<rparr>"
| "handle PERSONAS apiKey sys (Tick src now) =
     (case tick PERSONAS apiKey src now (scanner sys) of
        (s', None) \<Rightarrow> sys\<lparr>scanner := s'\<rparr>
      | (s', Some started) \<Rightarrow> sys\<lparr>scanner := s', inFlight := inFlight sys @ [started]\<rparr>)"
| "handle PERSONAS apiKey sys (Settle k now outcome) =
     (if k < length (inFlight sys)
      then sys\<lparr>scanner := settle now outcome (scanner sys),
               inFlight := take k (inFlight sys) @ drop (Suc k) (inFlight sys)\<rparr>
      else sys)"
| "handle PERSONAS apiKey sys (PersonaClick personaId) =
     sys\<lparr>scanner := handlePersonaClick personaId (scanner sys)\<rparr>"
| "handle PERSONAS apiKey sys (ConfirmSubOption subId) =
     sys\<lparr>scanner := confirmSubOption subId (scanner sys)\<rparr>"
| "handle PERSONAS apiKey sys ClosePending =
     sys\<lparr>scanner := (scanner sys)\<lparr>pendingPersonaId := None\<rparr>\<rparr>"
| "handle PERSONAS apiKey sys (VillainClick v) =
     sys\<lparr>scanner := (scanner sys)\<lparr>activeVillain := Some v\<rparr>\<rparr>"
| "handle PERSONAS apiKey sys VillainTimeout =
     sys\<lparr>scanner := (scanner sys)\<lparr>activeVillain := None\<rparr>\<rparr>"
| "handle PERSONAS apiKey sys AudioToggle =
     sys\<lparr>scanner := (scanner sys)\<lparr>isPlayingAudio := \<not> isPlayingAudio (scanner sys)\<rparr>\<rparr>"
| "handle PERSONAS apiKey sys Close = sys\<lparr>unmounted := True\<rparr>"

fun after_unmount :: "System \<Rightarrow> event \<Rightarrow> System" where
  "after_unmount sys (Settle k now outcome) =
     (if k < length (inFlight sys)
      then sys\<lparr>inFlight := take k (inFlight sys) @ drop (Suc k) (inFlight sys)\<rparr>
      else sys)"
| "after_unmount sys e = sys"

definition step :: "Persona list \<Rightarrow> jstring \<Rightarrow> System \<Rightarrow> event \<Rightarrow> System" where
  "step PERSONAS apiKey sys e =
     (if unmounted sys then after_unmount sys e else handle PERSONAS apiKey sys e)"

text \<open>The analysis result on display: none once the component is unmounted.\<close>

definition published :: "System \<Rightarrow> AnalysisResult option" where
  "published sys = (if unmounted sys then None else result (scanner sys))"

definition run :: "Persona list \<Rightarrow> jstring \<Rightarrow> event list \<Rightarrow> System" where
  "run PERSONAS apiKey events = foldl (step PERSONAS apiKey) start events"

text \<open>
  Two entries of the catalog, for the examples below (the labels without their emoji).
\<close>

definition catalog :: "Persona list" where
  "catalog =
     [\<lparr>persona_id = (units ''diabetic''), persona_label = (units ''Diabetic''),
       basePrompt = (units ''User is Diabetic. Scrutinize Sugar, High Fructose Corn Syrup, and Glycemic Index.''),
       subOptions =
         [\<lparr>sub_id = (units ''type1''), sub_label = (units ''Type 1 (Insulin Dependent)''),
           prompt = (units ''Strictly identify exact carb counts and fast-acting sugars.'')\<rparr>]\<rparr>,
      \<lparr>persona_id = (units ''kids''), persona_label = (units ''For Kids''),
       basePrompt = (units ''User is a parent buying for a child. Strict on safety and chemicals.''),
       subOptions =
         [\<lparr>sub_id = (units ''teen''), sub_label = (units ''Teen (13+)''),
           prompt = (units ''Focus on energy, acne triggers (dairy/grease), and growth nutrients.'')\<rparr>]\<rparr>]"

definition camera :: Source where
  "camera = \<lparr>mounted = True, ready = True, context2d = True, base64Data = (units ''frame'')\<rparr>"

text \<open>States and a trace used as concrete inputs below.\<close>

definition cooling :: LiveScanner where
  "cooling =
     settle 20000 (Inl (units ''QUOTA_EXCEEDED'')) (initial\<lparr>isStreaming := True, isAnalyzing := True\<rparr>)"

definition spaced :: LiveScanner where
  "spaced =
     initial\<lparr>isStreaming := True, lastAnalysisTime := 10000, pendingPersonaId := Some (units ''kids'')\<rparr>"




text \<open>
  The invariant of the transition system: an invocation is pending only while the
  analyzing flag is set, and while the component is mounted the flag is set only while an
  invocation is pending.
\<close>

definition single_flight :: "System \<Rightarrow> bool" where
  "single_flight sys \<longleftrightarrow>
     length (inFlight sys) \<le> 1 \<and>
     (inFlight sys \<noteq> [] \<longrightarrow> isAnalyzing (scanner sys)) \<and>
     (\<not> unmounted sys \<longrightarrow> isAnalyzing (scanner sys) \<longrightarrow> inFlight sys \<noteq> [])"

section \<open>Properties of the term matcher\<close>

declare split_loop.simps [simp del]

lemma regExpExec_Nil_iff: "regExpExec rt lits [] \<noteq> None \<longleftrightarrow> [] \<in> set lits"
  by (induction lits) (auto simp: literal_matches_def)

lemma set_sortedVillains: "set (sortedVillains vs) = set vs"
  by (simp add: sortedVillains_def)



lemma is_ascii_simps [simp]:
  "is_ascii []"
  "is_ascii (c # cs) \<longleftrightarrow> c < 128 \<and> is_ascii cs"
  by (simp_all add: is_ascii_def)





lemma toLowerCase_Nil_iff: "toLowerCase rt s = [] \<longleftrightarrow> s = []"
  by (cases s) (auto simp: toLowerCase_def split: prod.splits)

lemma toLowerCase_Nil [simp]: "toLowerCase rt [] = []"
  by (simp add: toLowerCase_Nil_iff)






lemma span_text_render [simp]: "span_text (render_part rt vs part) = part"
  by (simp add: render_part_def split: option.splits)










lemma render_Nil:
  "render_part rt vs [] =
     (case find (\<lambda>v. name v = []) vs of Some v \<Rightarrow> Match [] v | None \<Rightarrow> Plain [])"
  by (simp add: render_part_def toLowerCase_Nil_iff)

lemma empty_text_spans:
  "TextWithVillains rt [] terms =
     (if terms \<noteq> [] \<and> (\<exists>v\<in>set terms. name v = []) then [] else [Plain []])"
proof (cases "terms = []")
  case True
  then show ?thesis by (simp add: TextWithVillains_def)
next
  case False
  have iff: "regExpExec rt (map name (sortedVillains terms)) [] \<noteq> None \<longleftrightarrow>
      (\<exists>v\<in>set terms. name v = [])"
    unfolding regExpExec_Nil_iff by (force simp: set_sortedVillains)
  show ?thesis
  proof (cases "\<exists>v\<in>set terms. name v = []")
    case True
    with False iff show ?thesis by (simp add: TextWithVillains_def split_def Let_def)
  next
    case no: False
    then have "find (\<lambda>v. name v = []) (sortedVillains terms) = None"
      by (simp add: find_None_iff set_sortedVillains)
    with False iff no show ?thesis
      by (simp add: TextWithVillains_def split_def Let_def render_Nil)
  qed
qed







subsection \<open>The claims about the term matcher\<close>







text \<open>
  Claim C9, as amended. With an empty list of terms the result is exactly one Plain span
  holding the input, for every input. For the empty text the result holds no text and
  no Match span: it is one Plain span with the empty text, or no span at all when the
  list is not empty and one of its names is empty.
\<close>

theorem empty_input_laws:
  "TextWithVillains rt text [] = [Plain text] \<and>
   TextWithVillains rt [] terms =
     (if terms \<noteq> [] \<and> (\<exists>v\<in>set terms. name v = []) then [] else [Plain []]) \<and>
   concat (map span_text (TextWithVillains rt [] terms)) = []"
  by (simp add: empty_text_spans) (simp add: TextWithVillains_def)

text \<open>The three cases of the theorem at concrete inputs.\<close>

theorem empty_input_laws_witness:
  "TextWithVillains kelvin (units ''Contains Maltodextrin'') [] =
     [Plain (units ''Contains Maltodextrin'')] \<and>
   TextWithVillains kelvin []
       [\<lparr>name = units ''Corn Syrup'', explanation = []\<rparr>, \<lparr>name = [], explanation = []\<rparr>] = [] \<and>
   TextWithVillains kelvin [] [\<lparr>name = units ''Corn Syrup'', explanation = []\<rparr>] = [Plain []]"
  using empty_input_laws
      [of kelvin "units ''Contains Maltodextrin''"
          "[\<lparr>name = units ''Corn Syrup'', explanation = []\<rparr>, \<lparr>name = [], explanation = []\<rparr>]"]
    empty_input_laws [of kelvin "[]" "[\<lparr>name = units ''Corn Syrup'', explanation = []\<rparr>]"]
  by (simp add: units_def)

text \<open>
  The claim as stated asks for no span at all on the empty text; the component renders
  one Plain span, both without terms and with a term.
\<close>

theorem empty_text_counterexample:
  "TextWithVillains kelvin [] [] \<noteq> [] \<and>
   TextWithVillains kelvin [] [\<lparr>name = units ''Corn Syrup'', explanation = []\<rparr>] \<noteq> []"
  by (simp add: empty_text_spans units_def)

section \<open>Properties of the scan loop and the invoker\<close>

lemma cooldown_gate:
  "isCoolingDown s \<Longrightarrow> now \<le> lastAnalysisTime s + 3000 \<Longrightarrow> tick P k src now s = (s, None)"
  by (simp add: tick_def)

lemma tick_Some: "tick P k src now s = (s', Some i) \<Longrightarrow> \<not> isAnalyzing s \<and> isAnalyzing s'"
  by (auto simp: tick_def Let_def split: if_splits)

lemma tick_None: "tick P k src now s = (s', None) \<Longrightarrow> isAnalyzing s' = isAnalyzing s"
  by (auto simp: tick_def Let_def split: if_splits)

lemma isAnalyzing_settle: "\<not> isAnalyzing (settle now outcome s)"
  by (simp add: settle_def split: sum.splits)

lemma isAnalyzing_handlers:
  "isAnalyzing (handlePersonaClick p s) = isAnalyzing s"
  "isAnalyzing (confirmSubOption p s) = isAnalyzing s"
  by (simp_all add: handlePersonaClick_def confirmSubOption_def)

lemma single_flight_handle:
  assumes "single_flight sys" and "\<not> unmounted sys"
  shows "single_flight (handle P k sys e)"
proof (cases e)
  case (Tick src now)
  obtain s' r where t: "tick P k src now (scanner sys) = (s', r)"
    by (cases "tick P k src now (scanner sys)")
  show ?thesis
  proof (cases r)
    case None
    with t assms Tick show ?thesis by (auto simp: single_flight_def dest: tick_None)
  next
    case (Some i)
    with t assms Tick show ?thesis by (auto simp: single_flight_def dest: tick_Some)
  qed
next
  case (Settle j now outcome)
  with assms show ?thesis
    by (cases "inFlight sys") (auto simp: single_flight_def isAnalyzing_settle)
qed (use assms in \<open>auto simp: single_flight_def isAnalyzing_handlers\<close>)

lemma single_flight_after_unmount:
  assumes "single_flight sys" and "unmounted sys"
  shows "single_flight (after_unmount sys e)"
proof (cases e)
  case (Settle j now outcome)
  with assms show ?thesis by (cases "inFlight sys") (auto simp: single_flight_def)
qed (use assms in \<open>auto simp: single_flight_def\<close>)

lemma single_flight_step: "single_flight sys \<Longrightarrow> single_flight (step P k sys e)"
  by (simp add: step_def single_flight_handle single_flight_after_unmount)

lemma single_flight_run: "single_flight (run P k evs)"
proof (induction evs rule: rev_induct)
  case Nil
  show ?case by (simp add: run_def start_def initial_def single_flight_def)
next
  case (snoc e evs)
  then show ?case by (simp add: run_def single_flight_step)
qed







lemmas run_eval =
  run_def start_def initial_def step_def tick_def settle_def scanning_def truthy_def
  camera_def handlePersonaClick_def confirmSubOption_def published_def

lemma tick_analyzing: "isAnalyzing s \<Longrightarrow> snd (tick P k src now s) = None"
  by (simp add: tick_def Let_def)


subsection \<open>The claims about the scan loop\<close>

text \<open>
  Claim C1, evaluated on the code. A \<^verbatim>\<open>QUOTA_EXCEEDED\<close> outcome at \<open>t0 = 20000\<close> stores
  \<open>t0 + 10000\<close> and sets the cooling flag, and the ticks before \<open>t0 + 10000\<close> are skipped;
  but so are the tick at \<open>t0 + 10000\<close> and every tick up to \<open>t0 + 13000\<close>: the cooldown is
  cleared by the first tick later than \<open>t0 + 13000\<close>.
\<close>

theorem quota_pause_evaluated:
  "lastAnalysisTime cooling = 20000 + 10000 \<and> isCoolingDown cooling \<and>
   tick catalog (units ''key'') camera (20000 + 9000) cooling = (cooling, None) \<and>
   tick catalog (units ''key'') camera (20000 + 10000) cooling = (cooling, None) \<and>
   tick catalog (units ''key'') camera (20000 + 13000) cooling = (cooling, None) \<and>
   snd (tick catalog (units ''key'') camera (20000 + 13001) cooling) \<noteq> None \<and>
   \<not> isCoolingDown (fst (tick catalog (units ''key'') camera (20000 + 13001) cooling))"
  by (simp add: cooling_def settle_def initial_def tick_def scanning_def truthy_def camera_def
      units_def)

text \<open>
  Claim C4. With no cooldown and no analysis running, and the last analysis at \<open>t0\<close>, the
  tick at \<open>t0 + 1000\<close> starts nothing and leaves the state as it is, and the tick at
  \<open>t0 + 3000\<close> starts an invocation when the video has a frame to give.
\<close>

theorem spacing_gate:
  assumes "scanning apiKey s" and "\<not> isCoolingDown s" and "\<not> isAnalyzing s"
    and "lastAnalysisTime s = t0"
  shows "tick PERSONAS apiKey src (t0 + 1000) s = (s, None) \<and>
         (mounted src \<and> ready src \<and> context2d src \<longrightarrow>
            snd (tick PERSONAS apiKey src (t0 + 3000) s) \<noteq> None)"
  using assms by (simp add: tick_def)

text \<open>The theorem for a streaming scanner whose last analysis was at 5000.\<close>

theorem spacing_gate_witness:
  "tick catalog (units ''key'') camera (5000 + 1000)
       (initial\<lparr>isStreaming := True, lastAnalysisTime := 5000\<rparr>)
     = (initial\<lparr>isStreaming := True, lastAnalysisTime := 5000\<rparr>, None) \<and>
   snd (tick catalog (units ''key'') camera (5000 + 3000)
          (initial\<lparr>isStreaming := True, lastAnalysisTime := 5000\<rparr>)) \<noteq> None"
  using spacing_gate
      [of "(units ''key'')" "initial\<lparr>isStreaming := True, lastAnalysisTime := 5000\<rparr>" 5000 catalog camera]
  by (simp add: scanning_def truthy_def initial_def camera_def units_def)

text \<open>
  Claim C6. Whatever events have happened, at most one invocation is in flight, and
  while one is in flight no tick starts another, at whatever time the tick comes.
\<close>

theorem at_most_one_in_flight:
  "length (inFlight (run PERSONAS apiKey events)) \<le> 1 \<and>
   (inFlight (run PERSONAS apiKey events) \<noteq> [] \<longrightarrow>
      snd (tick PERSONAS apiKey src now (scanner (run PERSONAS apiKey events))) = None)"
  using single_flight_run [of PERSONAS apiKey events]
  by (auto simp: single_flight_def tick_analyzing)

text \<open>The theorem after a first tick has started an invocation.\<close>

theorem at_most_one_in_flight_witness:
  "inFlight (run catalog (units ''key'') [CameraStarted, Tick camera 5000]) \<noteq> [] \<and>
   length (inFlight (run catalog (units ''key'') [CameraStarted, Tick camera 5000])) \<le> 1 \<and>
   snd (tick catalog (units ''key'') camera 9000
          (scanner (run catalog (units ''key'') [CameraStarted, Tick camera 5000]))) = None"
proof -
  have ne: "inFlight (run catalog (units ''key'') [CameraStarted, Tick camera 5000]) \<noteq> []"
    by (simp add: run_eval units_def)
  with at_most_one_in_flight [of catalog "(units ''key'')" "[CameraStarted, Tick camera 5000]" camera 9000]
  show ?thesis by blast
qed




text \<open>
  Claim C7, as amended. Confirming a persona context clears the published result and
  changes nothing the tick's gate reads: the analyzing flag, the cooling flag and the time
  of the last analysis stay as they were. The next tick therefore obeys the spacing of
  3000 ms and an active cooldown exactly as before the change; there is no flag that
  forces it to run.
\<close>

theorem persona_change_keeps_gate:
  "isAnalyzing (confirmSubOption subId s) = isAnalyzing s \<and>
   isCoolingDown (confirmSubOption subId s) = isCoolingDown s \<and>
   lastAnalysisTime (confirmSubOption subId s) = lastAnalysisTime s \<and>
   (now - lastAnalysisTime s < 3000 \<longrightarrow>
      snd (tick PERSONAS apiKey src now (confirmSubOption subId s)) = None) \<and>
   (isCoolingDown s \<and> now \<le> lastAnalysisTime s + 3000 \<longrightarrow>
      snd (tick PERSONAS apiKey src now (confirmSubOption subId s)) = None) \<and>
   (truthy (pendingPersonaId s) \<longrightarrow> result (confirmSubOption subId s) = None)"
  by (simp add: confirmSubOption_def tick_def Let_def)

text \<open>The theorem one second after an analysis, with a persona waiting to be confirmed.\<close>

theorem persona_change_keeps_gate_witness:
  "11000 - lastAnalysisTime spaced < 3000 \<and> truthy (pendingPersonaId spaced) \<and>
   snd (tick catalog (units ''key'') camera 11000 (confirmSubOption (units ''teen'') spaced)) = None \<and>
   result (confirmSubOption (units ''teen'') spaced) = None"
  using persona_change_keeps_gate [of "(units ''teen'')" spaced 11000 catalog "(units ''key'')" camera]
  by (simp add: spaced_def initial_def truthy_def units_def)

text \<open>
  The claim as stated fails one second after an analysis: the persona context has just
  changed, the scanner is scanning and not cooling down, and the tick starts nothing.
\<close>

theorem forced_tick_counterexample:
  "activePersonaId (confirmSubOption (units ''teen'') spaced) = Some (units ''kids'') \<and>
   scanning (units ''key'') (confirmSubOption (units ''teen'') spaced) \<and>
   \<not> isCoolingDown (confirmSubOption (units ''teen'') spaced) \<and>
   snd (tick catalog (units ''key'') camera 11000 (confirmSubOption (units ''teen'') spaced)) = None"
  by (simp add: spaced_def initial_def confirmSubOption_def tick_def scanning_def truthy_def
      camera_def units_def)

text \<open>
  Claim C8, as amended. When the call is made with a credential (one that is not empty
  once trimmed) and the response has a text, a payload that parses is returned as the
  result of the call just as it parsed, by \<^verbatim>\<open>analyzeImage\<close> and by \<^verbatim>\<open>analyzeText\<close>, whether
  or not it has the required fields: it is not an error outcome. Only a missing
  credential, a thrown transport error, a missing text and a payload that does not parse
  are error outcomes.
\<close>

theorem parsed_payload_returned:
  "finalApiKey apiKey envKey \<noteq> [] \<and> truthy text \<longrightarrow>
     analyzeImage base64 mimeType apiKey persona envKey (Response text (Inr v)) = Inr v \<and>
     analyzeText query apiKey persona envKey (Response text (Inr v)) = Inr v"
  by (simp add: analyzeImage_def analyzeText_def)

text \<open>The theorem for a payload that is an empty array.\<close>

theorem parsed_payload_returned_witness:
  "finalApiKey (Some (units ''key'')) None \<noteq> [] \<and> truthy (Some (units ''[]'')) \<and>
   \<not> satisfies_required (JArray []) \<and>
   analyzeImage (units ''frame'') (units ''image/jpeg'') (Some (units ''key'')) None None
       (Response (Some (units ''[]'')) (Inr (JArray [])))
     = Inr (JArray [])"
proof -
  have k: "finalApiKey (Some (units ''key'')) None \<noteq> []"
    by (simp add: finalApiKey_def truthy_def trim_def is_space_def units_def)
  have t: "truthy (Some (units ''[]''))" by (simp add: truthy_def units_def)
  have r: "\<not> satisfies_required (JArray [])" by simp
  from k t r parsed_payload_returned
    [of "Some (units ''key'')" None "Some (units ''[]'')" "units ''frame''"
        "units ''image/jpeg''" None "JArray []"]
  show ?thesis by blast
qed

text \<open>
  The claim as stated fails for the payload \<^verbatim>\<open>{}\<close>: it parses, it has none of the
  required fields, and both entry points return it as the result. (A key that is only a
  no-break space is no credential: the call fails before the request.)
\<close>

theorem partial_payload_counterexample:
  "\<not> satisfies_required (JObject []) \<and>
   analyzeImage (units ''frame'') (units ''image/jpeg'') (Some (units ''key'')) None None
       (Response (Some (units ''{}'')) (Inr (JObject []))) = Inr (JObject []) \<and>
   analyzeText (units ''sugar, salt'') (Some (units ''key'')) None None
       (Response (Some (units ''{}'')) (Inr (JObject []))) = Inr (JObject []) \<and>
   analyzeImage (units ''frame'') (units ''image/jpeg'') (Some [0xA0]) None None
       (Response (Some (units ''{}'')) (Inr (JObject [])))
     = Inl (units ''API Key is missing. Please provide one in settings.'')"
  by (simp add: analyzeImage_def analyzeText_def finalApiKey_def truthy_def
      trim_def is_space_def analysisSchema_required_def units_def)

text \<open>
  Claim C10, as amended. When an invocation fails with anything but \<^verbatim>\<open>QUOTA_EXCEEDED\<close>,
  handling the outcome leaves the published result, the time of the last analysis and the
  cooling flag as they were. Only a success changes the published result (it stores the
  value returned; a payload \<^verbatim>\<open>null\<close> leaves the cell empty), and only
  \<^verbatim>\<open>QUOTA_EXCEEDED\<close> enters cooldown. The time of the last analysis is written by a
  success (the time of settling) and also by \<^verbatim>\<open>QUOTA_EXCEEDED\<close> (that time plus 10000: the
  cooldown is kept in the same variable), and by no other outcome.
\<close>

theorem failure_outcome_handling:
  "(message \<noteq> (units ''QUOTA_EXCEEDED'') \<longrightarrow>
      result (settle now (Inl message) s) = result s \<and>
      lastAnalysisTime (settle now (Inl message) s) = lastAnalysisTime s \<and>
      isCoolingDown (settle now (Inl message) s) = isCoolingDown s) \<and>
   (result (settle now outcome s) \<noteq> result s \<longrightarrow> (\<exists>d. outcome = Inr d)) \<and>
   (lastAnalysisTime (settle now outcome s) \<noteq> lastAnalysisTime s \<longrightarrow>
      (\<exists>d. outcome = Inr d) \<or> outcome = Inl (units ''QUOTA_EXCEEDED'')) \<and>
   (isCoolingDown (settle now outcome s) \<and> \<not> isCoolingDown s \<longrightarrow>
      outcome = Inl (units ''QUOTA_EXCEEDED'')) \<and>
   result (settle now (Inr d) s) = (if d = JNull then None else Some d) \<and>
   lastAnalysisTime (settle now (Inr d) s) = now \<and>
   lastAnalysisTime (settle now (Inl (units ''QUOTA_EXCEEDED'')) s) = now + 10000 \<and>
   isCoolingDown (settle now (Inl (units ''QUOTA_EXCEEDED'')) s)"
  by (cases d) (auto simp: settle_def setResult_def split: sum.splits if_splits)

text \<open>The theorem for a permission error that settles at 7000.\<close>

theorem failure_outcome_handling_witness:
  "(units ''403 PERMISSION_DENIED'') \<noteq> (units ''QUOTA_EXCEEDED'') \<and>
   result (settle 7000 (Inl (units ''403 PERMISSION_DENIED''))
             (initial\<lparr>result := Some (JString (units ''kept'')), lastAnalysisTime := 4000\<rparr>))
     = Some (JString (units ''kept'')) \<and>
   lastAnalysisTime (settle 7000 (Inl (units ''403 PERMISSION_DENIED''))
             (initial\<lparr>result := Some (JString (units ''kept'')), lastAnalysisTime := 4000\<rparr>)) = 4000 \<and>
   \<not> isCoolingDown (settle 7000 (Inl (units ''403 PERMISSION_DENIED''))
             (initial\<lparr>result := Some (JString (units ''kept'')), lastAnalysisTime := 4000\<rparr>))"
  using failure_outcome_handling
      [of "(units ''403 PERMISSION_DENIED'')" 7000
          "initial\<lparr>result := Some (JString (units ''kept'')), lastAnalysisTime := 4000\<rparr>"
          "Inl (units ''403 PERMISSION_DENIED'')" JNull]
  by (simp add: initial_def units_def)

text \<open>
  The claim as stated fails for the time of the last analysis: an outcome that is not a
  success, \<^verbatim>\<open>QUOTA_EXCEEDED\<close>, writes it.
\<close>

theorem quota_writes_last_time_counterexample:
  "lastAnalysisTime initial = 0 \<and>
   lastAnalysisTime (settle 20000 (Inl (units ''QUOTA_EXCEEDED'')) initial) = 30000 \<and>
   result (settle 20000 (Inl (units ''QUOTA_EXCEEDED'')) initial) = result initial"
  by (simp add: settle_def initial_def units_def)

end
